theory Spec2Isabelle
  imports Main
begin

section \<open>The two-tier selection widget (src/ui/selection_widget.py)\<close>

text \<open>
  The class \<open>AdvancedSelectionWidget\<close> keeps two sets of feature ids,
  \<open>original_selection\<close> (the cyan rows, BaseSelection of the specification) and
  \<open>highlighted_features\<close> (the yellow rows, HighlightedSet), a clipboard list, two
  guard flags, the table view and the two rubber bands. The vector layer of the host
  application is an external collaborator: the model keeps the part of it that the
  widget reads (selected ids, features, edit mode) next to the widget's own fields, and
  what a host call or a dialog returns is a parameter of the operation that makes the call.

  Feature ids are Python integers; a Python \<open>set\<close> of ids is an \<open>int set\<close> and
  \<open>len\<close> of it is \<open>card\<close>.
\<close>

subsection \<open>Data\<close>

record feature =
  fid :: int
  attributes :: "string list"
  has_geometry :: bool

datatype level = Info | Success | Warning | Critical | Question

datatype host_call =
    StartEditing
  | CommitChanges
  | RollBack
  | DeleteFeatures "int set"
  | AddFeatures "feature list"
  | ZoomToSelected
  | FlashFeatureIds "int list"

text \<open>
  What the user can observe of an operation is appended to \<open>events\<close>: a message of the
  message bar or a message box (level, title, text with \<open>{}\<close> where the f-string inserts
  a number, and the numbers), a repaint of the table viewport, a refresh of the map
  canvas, the \<open>highlightChanged\<close> signal, a dialog that is run (by its class name), and
  the calls into the host's data layer.
\<close>

datatype event =
    Message level string string "nat list"
  | ViewportUpdate
  | CanvasRefresh
  | HighlightChanged "int set"
  | DialogExec string
  | Host host_call

datatype action =
    action_clear_highlights | action_highlight_all | action_reselect
  | action_select_expr | action_invert | action_delete | action_cut
  | action_copy | action_paste | action_zoom | action_field_calc

record widget =
  original_selection :: "int set"
  highlighted_features :: "int set"
  clipboard_features :: "feature list"
  last_clicked_row :: "nat option"
  updating_selection :: bool
  updating_highlights :: bool
  table_rows :: "int list"
  table_selected :: "nat set"
  info_label :: "nat \<times> nat"
  enabled_actions :: "action set"
  cyan_rubber_band :: "int list"
  yellow_rubber_band :: "int list"
  layer_selected :: "int set"
  layer_features :: "feature list"
  layer_editable :: bool
  events :: "event list"

text \<open>
  \<open>table_rows\<close> is the table as \<open>populate_table\<close> fills it: row \<open>i\<close> carries the id
  that is stored in its items under \<open>Qt.UserRole + 1\<close> (and in \<open>row_to_fid\<close>);
  \<open>table_selected\<close> is the set of rows selected in the table's selection model.
  \<open>cyan_rubber_band\<close> and \<open>yellow_rubber_band\<close> list the ids of the features whose
  geometry each band shows.
\<close>

subsection \<open>Host layer reads and view updates\<close>

definition getFeatures :: "int set \<Rightarrow> widget \<Rightarrow> feature list" where
  \<comment> \<open>\<open>layer.getFeatures(QgsFeatureRequest().setFilterFids(list(ids)))\<close>\<close>
  "getFeatures ids s = filter (\<lambda>f. fid f \<in> ids) (layer_features s)"

definition emit :: "event \<Rightarrow> widget \<Rightarrow> widget" where
  "emit e s = s\<lparr>events := events s @ [e]\<rparr>"

definition viewport_update :: "widget \<Rightarrow> widget" where
  \<comment> \<open>\<open>self.table_widget.viewport().update()\<close>\<close>
  "viewport_update s = emit ViewportUpdate s"

definition get_fid_for_row :: "nat \<Rightarrow> widget \<Rightarrow> int option" where
  "get_fid_for_row row s =
     (if row < length (table_rows s) then Some (table_rows s ! row) else None)"

definition get_row_for_fid :: "int \<Rightarrow> widget \<Rightarrow> nat option" where
  \<comment> \<open>the first row, in \<open>range(rowCount())\<close>, that carries the id\<close>
  "get_row_for_fid f s =
     List.find (\<lambda>row. get_fid_for_row row s = Some f) [0..<length (table_rows s)]"

definition populate_table :: "widget \<Rightarrow> widget" where
  \<comment> \<open>signals are blocked, so clearing the table runs no selection handler; the rows
      that a cleared table keeps have no item and no entry in \<open>row_to_fid\<close>, they carry
      no id\<close>
  "populate_table s =
     (let s1 = s\<lparr>table_rows := [], table_selected := {}\<rparr>
      in if original_selection s1 = {} then s1
         else let features = getFeatures (original_selection s1) s1
              in s1\<lparr>table_rows := map fid features\<rparr>)"

definition update_info_label :: "widget \<Rightarrow> widget" where
  "update_info_label s =
     s\<lparr>info_label := (card (original_selection s), card (highlighted_features s))\<rparr>"

definition update_button_states :: "widget \<Rightarrow> widget" where
  "update_button_states s =
     (let has_highlights = (highlighted_features s \<noteq> {});
          has_selection = (original_selection s \<noteq> {});
          has_clipboard = (clipboard_features s \<noteq> []);
          is_editable = layer_editable s
      in s\<lparr>enabled_actions :=
            (if has_highlights then {action_clear_highlights, action_reselect} else {})
          \<union> (if has_selection
              then {action_highlight_all, action_select_expr, action_invert} else {})
          \<union> (if (has_highlights \<or> has_selection) \<and> is_editable
              then {action_delete, action_cut} else {})
          \<union> (if has_highlights \<or> has_selection
              then {action_copy, action_zoom, action_field_calc} else {})
          \<union> (if has_clipboard \<and> is_editable then {action_paste} else {})\<rparr>)"

definition update_map_highlighting :: "widget \<Rightarrow> widget" where
  "update_map_highlighting s =
     (let cyan_fids = original_selection s - highlighted_features s;
          s1 = s\<lparr>cyan_rubber_band := [], yellow_rubber_band := []\<rparr>;
          s2 = (if cyan_fids \<noteq> {}
                then s1\<lparr>cyan_rubber_band :=
                         map fid (filter has_geometry (getFeatures cyan_fids s1))\<rparr>
                else s1);
          s3 = (if highlighted_features s2 \<noteq> {}
                then s2\<lparr>yellow_rubber_band :=
                         map fid (filter has_geometry
                                    (getFeatures (highlighted_features s2) s2))\<rparr>
                else s2)
      in emit CanvasRefresh s3)"

subsection \<open>The target of an operation\<close>

definition get_target_features :: "widget \<Rightarrow> int set" where
  "get_target_features s =
     (if highlighted_features s \<noteq> {} then highlighted_features s
      else original_selection s)"

text \<open>
  The source returns \<open>.copy()\<close> of the chosen set, a new object. For the value of the
  result the definition above is all there is to say; that the result is a new object,
  and that the two sets of the widget are not touched, is a statement about objects.
  The same function over a store of set objects: a reference is an index into the store
  and \<open>set_copy\<close> allocates the next one.
\<close>

type_synonym ref = nat
type_synonym store = "int set list"

definition set_copy :: "ref \<Rightarrow> store \<Rightarrow> ref \<times> store" where
  "set_copy r h = (length h, h @ [h ! r])"

definition get_target_features_obj :: "ref \<Rightarrow> ref \<Rightarrow> store \<Rightarrow> ref \<times> store" where
  \<comment> \<open>\<open>original\<close> and \<open>highlighted\<close> are the objects the two attributes of \<open>self\<close> refer to\<close>
  "get_target_features_obj original highlighted h =
     (if h ! highlighted \<noteq> {} then set_copy highlighted h else set_copy original h)"

subsection \<open>The table's selection and its handler\<close>

definition on_table_selection_changed :: "widget \<Rightarrow> widget" where
  "on_table_selection_changed s =
     (if updating_highlights s then s
      else let selected_rows = table_selected s;
               new_highlighted =
                 Option.these ((\<lambda>row. get_fid_for_row row s) ` selected_rows)
           in if new_highlighted \<noteq> highlighted_features s
              then let s1 = s\<lparr>highlighted_features := new_highlighted\<rparr>;
                       s2 = viewport_update s1;
                       s3 = update_info_label s2;
                       s4 = update_button_states s3;
                       s5 = update_map_highlighting s4;
                       s6 = emit (HighlightChanged (highlighted_features s5)) s5
                   in if selected_rows \<noteq> {}
                      then s6\<lparr>last_clicked_row := Some (Max selected_rows)\<rparr>
                      else s6
              else s)"

text \<open>
  The table emits \<open>itemSelectionChanged\<close>, which \<open>connect_signals\<close> wires to the handler,
  when its selection changes: by a click of the user (\<open>set_table_selection\<close> with the
  rows the click leaves selected) and by the widget's own calls \<open>clearSelection()\<close>,
  \<open>selectAll()\<close> and \<open>selection_model.select(index, Select | Rows)\<close>.
\<close>

definition set_table_selection :: "nat set \<Rightarrow> widget \<Rightarrow> widget" where
  "set_table_selection rows s =
     (if rows = table_selected s then s
      else on_table_selection_changed (s\<lparr>table_selected := rows\<rparr>))"

definition clearSelection :: "widget \<Rightarrow> widget" where
  "clearSelection s = set_table_selection {} s"

definition selectAll :: "widget \<Rightarrow> widget" where
  "selectAll s = set_table_selection {0..<length (table_rows s)} s"

definition select_rows_of :: "int set \<Rightarrow> widget \<Rightarrow> widget" where
  \<comment> \<open>\<open>for fid in fids: row = get_row_for_fid(fid); if row is not None: select(row)\<close>,
      a loop that every caller runs with \<open>updating_highlights\<close> set\<close>
  "select_rows_of fids s =
     set_table_selection
       (table_selected s \<union> Option.these ((\<lambda>f. get_row_for_fid f s) ` fids)) s"

definition on_editing_mode_changed :: "widget \<Rightarrow> widget" where
  "on_editing_mode_changed s =
     (let saved_highlights = highlighted_features s;
          s1 = populate_table s;
          s2 = s1\<lparr>highlighted_features := saved_highlights\<rparr>;
          s3 = s2\<lparr>updating_highlights := True\<rparr>;
          s4 = select_rows_of (highlighted_features s3) s3;
          s5 = s4\<lparr>updating_highlights := False\<rparr>;
          s6 = viewport_update s5;
          s7 = update_button_states s6
      in update_map_highlighting s7)"

subsection \<open>The host's selection and its handler\<close>

definition on_layer_selection_changed :: "widget \<Rightarrow> widget" where
  "on_layer_selection_changed s =
     (if updating_selection s then s
      else let new_selection = layer_selected s
           in if new_selection \<noteq> original_selection s
              then let s1 = s\<lparr>original_selection := new_selection\<rparr>;
                       s2 = s1\<lparr>highlighted_features :=
                                highlighted_features s1 \<inter> original_selection s1\<rparr>;
                       s3 = populate_table s2;
                       s4 = viewport_update s3;
                       s5 = update_info_label s4;
                       s6 = update_button_states s5;
                       s7 = update_map_highlighting s6
                   in emit (Message Info ''Sync'' ''Selection updated: {} features''
                              [card (original_selection s7)]) s7
              else s)"

definition selectByIds :: "int set \<Rightarrow> widget \<Rightarrow> widget" where
  \<comment> \<open>the layer replaces its selection and emits \<open>selectionChanged\<close>, which
      \<open>connect_signals\<close> wires to the handler; the same whether the widget or another
      part of the host makes the call\<close>
  "selectByIds ids s = on_layer_selection_changed (s\<lparr>layer_selected := ids\<rparr>)"

definition refresh_table :: "widget \<Rightarrow> widget" where
  "refresh_table s =
     (let current_selection = layer_selected s;
          s1 = (if current_selection \<noteq> {}
                then s\<lparr>original_selection := current_selection\<rparr> else s);
          s2 = s1\<lparr>highlighted_features :=
                   highlighted_features s1 \<inter> original_selection s1\<rparr>;
          s3 = populate_table s2;
          s4 = viewport_update s3;
          s5 = update_info_label s4;
          s6 = update_button_states s5
      in update_map_highlighting s6)"

definition on_features_deleted :: "int list \<Rightarrow> widget \<Rightarrow> widget" where
  "on_features_deleted fids s =
     (let deleted = set fids;
          s1 = s\<lparr>original_selection := original_selection s - deleted\<rparr>;
          s2 = s1\<lparr>highlighted_features := highlighted_features s1 - deleted\<rparr>;
          s3 = populate_table s2;
          s4 = viewport_update s3;
          s5 = update_info_label s4;
          s6 = update_button_states s5
      in update_map_highlighting s6)"

subsection \<open>Highlight actions\<close>

definition reselect_to_highlighted :: "widget \<Rightarrow> widget" where
  "reselect_to_highlighted s =
     (if highlighted_features s = {}
      then emit (Message Info ''Selection'' ''No features highlighted to re-select.'' []) s
      else let s1 = s\<lparr>original_selection := highlighted_features s\<rparr>;
               s2 = s1\<lparr>highlighted_features := {}\<rparr>;
               s3 = s2\<lparr>updating_selection := True\<rparr>;
               s4 = selectByIds (original_selection s3) s3;
               s5 = s4\<lparr>updating_selection := False\<rparr>;
               s6 = populate_table s5;
               s7 = viewport_update s6;
               s8 = update_info_label s7;
               s9 = update_button_states s8;
               s10 = update_map_highlighting s9
           in emit (Message Success ''Re-select'' ''Selection narrowed to {} features.''
                      [card (original_selection s10)]) s10)"

definition clear_highlights :: "widget \<Rightarrow> widget" where
  "clear_highlights s =
     (if highlighted_features s = {} then s
      else let count = card (highlighted_features s);
               s1 = s\<lparr>highlighted_features := {}\<rparr>;
               s2 = s1\<lparr>last_clicked_row := None\<rparr>;
               s3 = clearSelection s2;
               s4 = viewport_update s3;
               s5 = update_info_label s4;
               s6 = update_button_states s5;
               s7 = update_map_highlighting s6
           in emit (Message Info ''Selection'' ''Cleared {} highlights.'' [count]) s7)"

definition highlight_all :: "widget \<Rightarrow> widget" where
  "highlight_all s =
     (let s1 = s\<lparr>highlighted_features := original_selection s\<rparr>;
          s2 = selectAll s1;
          s3 = viewport_update s2;
          s4 = update_info_label s3;
          s5 = update_button_states s4;
          s6 = update_map_highlighting s5
      in emit (Message Success ''Selection'' ''Highlighted {} features.''
                 [card (highlighted_features s6)]) s6)"

text \<open>
  The filter: the dialog is rejected (\<open>None\<close>) or returns an expression text; the host's
  \<open>QgsExpression\<close> either has a parser error or evaluates on a feature.
\<close>

datatype expression = ParserError string | Evaluates "feature \<Rightarrow> bool"

definition select_by_expression ::
  "(string \<Rightarrow> expression) \<Rightarrow> string option \<Rightarrow> widget \<Rightarrow> widget" where
  "select_by_expression QgsExpression dialog s =
     (if original_selection s = {}
      then emit (Message Info ''Filter'' ''No features selected to filter.'' []) s
      else let s0 = emit (DialogExec ''SelectionFilterDialog'') s in case dialog of
        None \<Rightarrow> s0
      | Some expr_text \<Rightarrow>
          if expr_text = [] then s0
          else (case QgsExpression expr_text of
            ParserError msg \<Rightarrow>
              emit (Message Critical ''Filter'' (''Expression error: '' @ msg) []) s0
          | Evaluates result \<Rightarrow>
              let matching_fids =
                    set (map fid (filter result (getFeatures (original_selection s0) s0)));
                  s1 = s0\<lparr>highlighted_features := matching_fids\<rparr>;
                  s2 = s1\<lparr>updating_highlights := True\<rparr>;
                  s3 = clearSelection s2;
                  s4 = select_rows_of matching_fids s3;
                  s5 = s4\<lparr>updating_highlights := False\<rparr>;
                  s6 = viewport_update s5;
                  s7 = update_info_label s6;
                  s8 = update_button_states s7;
                  s9 = update_map_highlighting s8
              in emit (Message Success ''Filter'' ''Highlighted {} features.''
                         [card matching_fids]) s9))"

definition invert_highlights :: "widget \<Rightarrow> widget" where
  "invert_highlights s =
     (if original_selection s = {} then s
      else let s1 = s\<lparr>highlighted_features :=
                        original_selection s - highlighted_features s\<rparr>;
               s2 = s1\<lparr>updating_highlights := True\<rparr>;
               s3 = clearSelection s2;
               s4 = select_rows_of (highlighted_features s3) s3;
               s5 = s4\<lparr>updating_highlights := False\<rparr>;
               s6 = viewport_update s5;
               s7 = update_info_label s6;
               s8 = update_button_states s7;
               s9 = update_map_highlighting s8
           in emit (Message Info ''Selection'' ''Inverted: {} highlighted.''
                      [card (highlighted_features s9)]) s9)"

subsection \<open>Calls into the host's data layer\<close>

text \<open>
  Each call is recorded and changes the layer as the host documents it. Whether
  \<open>deleteFeatures\<close> and \<open>addFeatures\<close> succeed is decided by the host and is a parameter;
  a call that fails leaves the layer's data as it was.
\<close>

definition startEditing :: "widget \<Rightarrow> widget" where
  "startEditing s = emit (Host StartEditing) (s\<lparr>layer_editable := True\<rparr>)"

definition commitChanges :: "widget \<Rightarrow> widget" where
  "commitChanges s = emit (Host CommitChanges) (s\<lparr>layer_editable := False\<rparr>)"

definition rollBack :: "widget \<Rightarrow> widget" where
  "rollBack s = emit (Host RollBack) (s\<lparr>layer_editable := False\<rparr>)"

definition deleteFeatures :: "bool \<Rightarrow> int set \<Rightarrow> widget \<Rightarrow> widget" where
  "deleteFeatures ok fids s =
     emit (Host (DeleteFeatures fids))
       (if ok then s\<lparr>layer_features := filter (\<lambda>f. fid f \<notin> fids) (layer_features s)\<rparr>
        else s)"

definition addFeatures :: "feature list option \<Rightarrow> feature list \<Rightarrow> widget \<Rightarrow> widget" where
  "addFeatures added features s =
     emit (Host (AddFeatures features))
       (case added of
          Some new_features \<Rightarrow> s\<lparr>layer_features := layer_features s @ new_features\<rparr>
        | None \<Rightarrow> s)"

subsection \<open>Operations on the target features\<close>

definition delete_features :: "bool \<Rightarrow> bool \<Rightarrow> widget \<Rightarrow> widget" where
  \<comment> \<open>\<open>reply_yes\<close>: the user answers the question with Yes;
      \<open>delete_ok\<close>: what \<open>layer.deleteFeatures\<close> returns\<close>
  "delete_features reply_yes delete_ok s =
     (let fids = get_target_features s
      in if fids = {} then s
         else let target_type =
                    (if highlighted_features s \<noteq> {} then ''highlighted''
                     else ''all selected'');
                  s0 = emit (Message Question ''Delete Features''
                               (''Delete {} '' @ target_type @ '' features?'')
                               [card fids]) s
              in if \<not> reply_yes then s0
                 else let was_editing = layer_editable s0;
                          s1 = (if \<not> was_editing then startEditing s0 else s0);
                          s2 = deleteFeatures delete_ok fids s1
                      in if delete_ok
                         then let s3 = (if \<not> was_editing then commitChanges s2 else s2);
                                  s4 = s3\<lparr>original_selection := original_selection s3 - fids\<rparr>;
                                  s5 = s4\<lparr>highlighted_features :=
                                           highlighted_features s4 - fids\<rparr>;
                                  s6 = populate_table s5;
                                  s7 = viewport_update s6;
                                  s8 = update_info_label s7;
                                  s9 = update_button_states s8;
                                  s10 = s9\<lparr>updating_selection := True\<rparr>;
                                  s11 = selectByIds (original_selection s10) s10;
                                  s12 = s11\<lparr>updating_selection := False\<rparr>
                              in emit (Message Success ''Delete'' ''Deleted {} features.''
                                         [card fids]) s12
                         else let s3 = (if \<not> was_editing then rollBack s2 else s2)
                              in emit (Message Warning ''Error''
                                         ''Failed to delete features.'' []) s3)"

definition copy_features :: "widget \<Rightarrow> widget" where
  "copy_features s =
     (let fids = get_target_features s
      in if fids = {} then s
         else let s1 = s\<lparr>clipboard_features := []\<rparr>;
                  s2 = foldl (\<lambda>w feature.
                                w\<lparr>clipboard_features := clipboard_features w @ [feature]\<rparr>)
                             s1 (getFeatures fids s1);
                  s3 = update_button_states s2
              in emit (Message Success ''Copy'' ''Copied {} features.''
                         [length (clipboard_features s3)]) s3)"

definition cut_features :: "bool \<Rightarrow> bool \<Rightarrow> widget \<Rightarrow> widget" where
  "cut_features reply_yes delete_ok s =
     delete_features reply_yes delete_ok (copy_features s)"

definition paste_features :: "feature list option \<Rightarrow> widget \<Rightarrow> widget" where
  \<comment> \<open>\<open>added\<close>: what \<open>addFeatures\<close> returns, the new features on success\<close>
  "paste_features added s =
     (if clipboard_features s = [] then s
      else let was_editing = layer_editable s;
               s1 = (if \<not> was_editing then startEditing s else s);
               s2 = addFeatures added (clipboard_features s1) s1
           in case added of
                Some new_features \<Rightarrow>
                  let s3 = (if \<not> was_editing then commitChanges s2 else s2);
                      s4 = emit (Message Success ''Paste'' ''Pasted {} features.''
                                   [length new_features]) s3
                  in refresh_table s4
              | None \<Rightarrow>
                  let s3 = (if \<not> was_editing then rollBack s2 else s2)
                  in emit (Message Warning ''Error'' ''Failed to paste features.'' []) s3)"

definition zoom_to_highlighted :: "widget \<Rightarrow> widget" where
  "zoom_to_highlighted s =
     (let fids = get_target_features s
      in if fids = {} then s
         else let s1 = s\<lparr>updating_selection := True\<rparr>;
                  s2 = selectByIds fids s1;
                  s3 = s2\<lparr>updating_selection := False\<rparr>
              in emit (Host ZoomToSelected) s3)"

subsection \<open>The field calculator\<close>

definition open_field_calculator :: "widget \<Rightarrow> widget" where
  \<comment> \<open>the method ends after the check: both paths return\<close>
  "open_field_calculator s =
     (let fids = get_target_features s
      in if fids = {} \<and> original_selection s = {}
         then emit (Message Info ''Field Calculator'' ''No features selected.'' []) s
         else s)"

text \<open>
  The statements that compute \<open>target_fids\<close> and run the \<open>FieldCalculatorDialog\<close> stand in
  the body of \<open>flash_fid(self, fid)\<close>, after the call that flashes the feature. The first
  of them reads the name \<open>fids\<close>. Python looks a name up among the names bound in the
  function and then among those of the module (no builtin is called \<open>fids\<close>); a name that
  has no binding raises \<open>NameError\<close>, the class of which \<open>UnboundLocalError\<close> is the
  subclass for names of the function itself.
\<close>

datatype py_error = NameError string

definition module_names :: "string list" where
  \<comment> \<open>the names that the imports and class statements of the module bind\<close>
  "module_names =
     [''os'', ''Qt'', ''pyqtSignal'', ''QIcon'', ''QColor'', ''QWidget'', ''QVBoxLayout'',
      ''QHBoxLayout'', ''QLabel'', ''QToolBar'', ''QTableWidget'', ''QAbstractItemView'',
      ''QHeaderView'', ''QAction'', ''QMessageBox'', ''QDockWidget'', ''QDialog'',
      ''QFrame'', ''QPushButton'', ''QSizePolicy'', ''QComboBox'', ''QTableWidgetItem'',
      ''QMenu'', ''QApplication'', ''QgsFeatureRequest'', ''QgsFeature'',
      ''QgsApplication'', ''QgsRubberBand'', ''HighlightDelegate'',
      ''SelectionFilterDialog'', ''FieldCalculatorDialog'', ''AdvancedSelectionWidget'',
      ''AdvancedSelectionDock'', ''AdvancedSelectionDialog'']"

definition load_name :: "string list \<Rightarrow> string \<Rightarrow> py_error + unit" where
  "load_name local_names x =
     (if x \<in> set local_names \<or> x \<in> set module_names then Inr ()
      else Inl (NameError x))"

definition flash_fid :: "int \<Rightarrow> widget \<Rightarrow> py_error option \<times> widget" where
  \<comment> \<open>the result is the exception that leaves the method, if any, and the state then;
      of the statements after the read of \<open>fids\<close> only the run of the dialog is kept\<close>
  "flash_fid fid' s =
     (let s1 = emit (Host (FlashFeatureIds [fid'])) s
      in case load_name [''self'', ''fid''] ''fids'' of
           Inl err \<Rightarrow> (Some err, s1)
         | Inr _ \<Rightarrow> (None, emit (DialogExec ''FieldCalculatorDialog'') s1))"

subsection \<open>Construction and runs\<close>

definition init :: "int set \<Rightarrow> feature list \<Rightarrow> bool \<Rightarrow> widget" where
  \<comment> \<open>\<open>__init__\<close> on a layer with the given selection, features and edit mode\<close>
  "init selectedFeatureIds features editable =
     (let s0 = \<lparr>original_selection = selectedFeatureIds,
                highlighted_features = {},
                clipboard_features = [],
                last_clicked_row = None,
                updating_selection = False,
                updating_highlights = False,
                table_rows = [],
                table_selected = {},
                info_label = (0, 0),
                enabled_actions = {},
                cyan_rubber_band = [],
                yellow_rubber_band = [],
                layer_selected = selectedFeatureIds,
                layer_features = features,
                layer_editable = editable,
                events = []\<rparr>;
          s1 = update_info_label s0;
          s2 = populate_table s1;
          s3 = update_button_states s2
      in update_map_highlighting s3)"

text \<open>
  What can happen to a widget between its construction and its end: the actions of its
  toolbar and context menu, with what the host and the dialogs answer, a click in the
  table, and the signals of the layer that \<open>connect_signals\<close> wires to a handler.
  \<open>Op_layer_edited\<close> is a change of the layer's features made elsewhere in the host.

  The signal \<open>selectionChanged\<close> is delivered inside \<open>selectByIds\<close>, where the flag
  \<open>updating_selection\<close> guards it. The signals \<open>featuresDeleted\<close>, \<open>editingStarted\<close>
  and \<open>editingStopped\<close> are operations of their own, \<open>Op_features_deleted\<close> and
  \<open>Op_editing_mode_changed\<close>, so a run may deliver them right after the operation whose
  host call raises them. Sorting the table, editing a cell, zooming or panning to one
  feature and docking the widget change neither set and are left out.
\<close>

datatype op =
    Op_selection_changed "int set"
  | Op_table_click "nat set"
  | Op_select_by_expression "string \<Rightarrow> expression" "string option"
  | Op_clear_highlights
  | Op_highlight_all
  | Op_invert_highlights
  | Op_reselect_to_highlighted
  | Op_features_deleted "int list"
  | Op_refresh_table
  | Op_delete_features bool bool
  | Op_cut_features bool bool
  | Op_copy_features
  | Op_paste_features "feature list option"
  | Op_zoom_to_highlighted
  | Op_open_field_calculator
  | Op_flash_fid int
  | Op_editing_mode_changed bool
  | Op_layer_edited "feature list"

fun exec :: "op \<Rightarrow> widget \<Rightarrow> widget" where
  "exec (Op_selection_changed ids) s = selectByIds ids s"
| "exec (Op_table_click rows) s = set_table_selection rows s"
| "exec (Op_select_by_expression QgsExpression dialog) s =
     select_by_expression QgsExpression dialog s"
| "exec Op_clear_highlights s = clear_highlights s"
| "exec Op_highlight_all s = highlight_all s"
| "exec Op_invert_highlights s = invert_highlights s"
| "exec Op_reselect_to_highlighted s = reselect_to_highlighted s"
| "exec (Op_features_deleted fids) s = on_features_deleted fids s"
| "exec Op_refresh_table s = refresh_table s"
| "exec (Op_delete_features reply_yes delete_ok) s = delete_features reply_yes delete_ok s"
| "exec (Op_cut_features reply_yes delete_ok) s = cut_features reply_yes delete_ok s"
| "exec Op_copy_features s = copy_features s"
| "exec (Op_paste_features added) s = paste_features added s"
| "exec Op_zoom_to_highlighted s = zoom_to_highlighted s"
| "exec Op_open_field_calculator s = open_field_calculator s"
| "exec (Op_flash_fid fid') s = snd (flash_fid fid' s)"
| "exec (Op_editing_mode_changed editable) s =
     on_editing_mode_changed (s\<lparr>layer_editable := editable\<rparr>)"
| "exec (Op_layer_edited features) s = s\<lparr>layer_features := features\<rparr>"

fun run :: "op list \<Rightarrow> widget \<Rightarrow> widget" where
  "run [] s = s"
| "run (x # xs) s = run xs (exec x s)"

subsection \<open>Notions used in the statements\<close>

definition new_events :: "widget \<Rightarrow> widget \<Rightarrow> event list" where
  \<comment> \<open>what an operation that leads from \<open>s\<close> to \<open>s'\<close> has appended to the events\<close>
  "new_events s s' = drop (length (events s)) (events s')"

definition selection_invariant :: "widget \<Rightarrow> bool" where
  \<comment> \<open>the highlighted ids, and the ids that the rows of the table carry, are selected\<close>
  "selection_invariant s =
     (highlighted_features s \<subseteq> original_selection s
      \<and> set (table_rows s) \<subseteq> original_selection s)"

definition guards_clear :: "widget \<Rightarrow> bool" where
  "guards_clear s = (\<not> updating_selection s \<and> \<not> updating_highlights s)"

text \<open>Concrete layers, widgets and a filter, for the examples.\<close>

definition feature_of :: "int \<Rightarrow> feature" where
  "feature_of i = \<lparr>fid = i, attributes = [], has_geometry = True\<rparr>"

definition example_widget :: widget where
  \<comment> \<open>features 1, 2, 3 selected, then a click on the second row\<close>
  "example_widget =
     run [Op_table_click {1}] (init {1, 2, 3} (map feature_of [1, 2, 3]) False)"

definition example_scenario :: widget where
  \<comment> \<open>the scenario of the specification: features 1 to 5 selected\<close>
  "example_scenario = init {1, 2, 3, 4, 5} (map feature_of [1, 2, 3, 4, 5]) False"

definition example_empty :: widget where
  "example_empty = init {} [] False"

definition example_editing :: widget where
  \<comment> \<open>features 1, 2 selected on a layer that is in edit mode\<close>
  "example_editing = init {1, 2} (map feature_of [1, 2]) True"

definition example_filter :: "string \<Rightarrow> expression" where
  \<comment> \<open>an expression that holds of feature 2 only\<close>
  "example_filter expr_text = Evaluates (\<lambda>f. fid f = 2)"

section \<open>Properties\<close>

subsection \<open>What the view updates and the host calls leave alone\<close>

lemma emit_fields [simp]:
  "original_selection (emit e s) = original_selection s"
  "highlighted_features (emit e s) = highlighted_features s"
  "table_rows (emit e s) = table_rows s"
  "table_selected (emit e s) = table_selected s"
  "clipboard_features (emit e s) = clipboard_features s"
  "updating_selection (emit e s) = updating_selection s"
  "updating_highlights (emit e s) = updating_highlights s"
  "layer_selected (emit e s) = layer_selected s"
  "layer_features (emit e s) = layer_features s"
  "layer_editable (emit e s) = layer_editable s"
  "events (emit e s) = events s @ [e]"
  by (simp_all add: emit_def)

lemma viewport_update_fields [simp]:
  "original_selection (viewport_update s) = original_selection s"
  "highlighted_features (viewport_update s) = highlighted_features s"
  "table_rows (viewport_update s) = table_rows s"
  "table_selected (viewport_update s) = table_selected s"
  "clipboard_features (viewport_update s) = clipboard_features s"
  "updating_selection (viewport_update s) = updating_selection s"
  "updating_highlights (viewport_update s) = updating_highlights s"
  "layer_selected (viewport_update s) = layer_selected s"
  "layer_features (viewport_update s) = layer_features s"
  "layer_editable (viewport_update s) = layer_editable s"
  "events (viewport_update s) = events s @ [ViewportUpdate]"
  by (simp_all add: viewport_update_def)

lemma update_info_label_fields [simp]:
  "original_selection (update_info_label s) = original_selection s"
  "highlighted_features (update_info_label s) = highlighted_features s"
  "table_rows (update_info_label s) = table_rows s"
  "table_selected (update_info_label s) = table_selected s"
  "clipboard_features (update_info_label s) = clipboard_features s"
  "updating_selection (update_info_label s) = updating_selection s"
  "updating_highlights (update_info_label s) = updating_highlights s"
  "layer_selected (update_info_label s) = layer_selected s"
  "layer_features (update_info_label s) = layer_features s"
  "layer_editable (update_info_label s) = layer_editable s"
  "events (update_info_label s) = events s"
  by (simp_all add: update_info_label_def)

lemma update_button_states_fields [simp]:
  "original_selection (update_button_states s) = original_selection s"
  "highlighted_features (update_button_states s) = highlighted_features s"
  "table_rows (update_button_states s) = table_rows s"
  "table_selected (update_button_states s) = table_selected s"
  "clipboard_features (update_button_states s) = clipboard_features s"
  "updating_selection (update_button_states s) = updating_selection s"
  "updating_highlights (update_button_states s) = updating_highlights s"
  "layer_selected (update_button_states s) = layer_selected s"
  "layer_features (update_button_states s) = layer_features s"
  "layer_editable (update_button_states s) = layer_editable s"
  "events (update_button_states s) = events s"
  by (simp_all add: update_button_states_def Let_def)

lemma update_map_highlighting_fields [simp]:
  "original_selection (update_map_highlighting s) = original_selection s"
  "highlighted_features (update_map_highlighting s) = highlighted_features s"
  "table_rows (update_map_highlighting s) = table_rows s"
  "table_selected (update_map_highlighting s) = table_selected s"
  "clipboard_features (update_map_highlighting s) = clipboard_features s"
  "updating_selection (update_map_highlighting s) = updating_selection s"
  "updating_highlights (update_map_highlighting s) = updating_highlights s"
  "layer_selected (update_map_highlighting s) = layer_selected s"
  "layer_features (update_map_highlighting s) = layer_features s"
  "layer_editable (update_map_highlighting s) = layer_editable s"
  "events (update_map_highlighting s) = events s @ [CanvasRefresh]"
  by (simp_all add: update_map_highlighting_def Let_def)

lemma populate_table_fields [simp]:
  "original_selection (populate_table s) = original_selection s"
  "highlighted_features (populate_table s) = highlighted_features s"
  "table_selected (populate_table s) = {}"
  "clipboard_features (populate_table s) = clipboard_features s"
  "updating_selection (populate_table s) = updating_selection s"
  "updating_highlights (populate_table s) = updating_highlights s"
  "layer_selected (populate_table s) = layer_selected s"
  "layer_features (populate_table s) = layer_features s"
  "layer_editable (populate_table s) = layer_editable s"
  "events (populate_table s) = events s"
  by (simp_all add: populate_table_def Let_def)

lemma populate_table_rows:
  "set (table_rows (populate_table s)) \<subseteq> original_selection s"
  by (auto simp: populate_table_def getFeatures_def Let_def)

text \<open>
  A handler whose guard flag is set returns at once, so a change of the table's selection
  or of the layer's selection made under the flag changes that selection and nothing else.
\<close>

lemma on_table_selection_changed_guarded:
  "updating_highlights s \<Longrightarrow> on_table_selection_changed s = s"
  by (simp add: on_table_selection_changed_def)

lemma set_table_selection_guarded:
  "updating_highlights s \<Longrightarrow> set_table_selection rows s = s\<lparr>table_selected := rows\<rparr>"
  by (simp add: set_table_selection_def on_table_selection_changed_def)

lemma selected_fids_subset:
  "Option.these ((\<lambda>row. get_fid_for_row row s) ` rows) \<subseteq> set (table_rows s)"
  by (auto simp: Option.these_def get_fid_for_row_def split: if_splits)

lemma on_table_selection_changed_fields [simp]:
  "original_selection (on_table_selection_changed s) = original_selection s"
  "table_rows (on_table_selection_changed s) = table_rows s"
  "table_selected (on_table_selection_changed s) = table_selected s"
  "clipboard_features (on_table_selection_changed s) = clipboard_features s"
  "updating_selection (on_table_selection_changed s) = updating_selection s"
  "updating_highlights (on_table_selection_changed s) = updating_highlights s"
  "layer_selected (on_table_selection_changed s) = layer_selected s"
  "layer_features (on_table_selection_changed s) = layer_features s"
  "layer_editable (on_table_selection_changed s) = layer_editable s"
  by (simp_all add: on_table_selection_changed_def Let_def)

lemma on_table_selection_changed_highlighted:
  "highlighted_features (on_table_selection_changed s) =
     (if updating_highlights s then highlighted_features s
      else Option.these ((\<lambda>row. get_fid_for_row row s) ` table_selected s))"
  by (simp add: on_table_selection_changed_def Let_def)

lemma selectByIds_guarded:
  "updating_selection s \<Longrightarrow> selectByIds ids s = s\<lparr>layer_selected := ids\<rparr>"
  by (simp add: selectByIds_def on_layer_selection_changed_def)

lemma guarded_table_updates [simp]:
  "highlighted_features
     (select_rows_of fids (clearSelection (s\<lparr>updating_highlights := True\<rparr>)))
   = highlighted_features s"
  "original_selection
     (select_rows_of fids (clearSelection (s\<lparr>updating_highlights := True\<rparr>)))
   = original_selection s"
  "events (select_rows_of fids (clearSelection (s\<lparr>updating_highlights := True\<rparr>)))
   = events s"
  by (simp_all add: select_rows_of_def clearSelection_def set_table_selection_guarded)

lemma invert_highlights_sets:
  "highlighted_features (invert_highlights s) =
     (if original_selection s = {} then highlighted_features s
      else original_selection s - highlighted_features s)"
  "original_selection (invert_highlights s) = original_selection s"
  by (simp_all add: invert_highlights_def Let_def)

lemma host_call_fields [simp]:
  "original_selection (startEditing s) = original_selection s"
  "highlighted_features (startEditing s) = highlighted_features s"
  "layer_editable (startEditing s) = True"
  "events (startEditing s) = events s @ [Host StartEditing]"
  "original_selection (rollBack s) = original_selection s"
  "highlighted_features (rollBack s) = highlighted_features s"
  "layer_editable (rollBack s) = False"
  "events (rollBack s) = events s @ [Host RollBack]"
  "original_selection (commitChanges s) = original_selection s"
  "highlighted_features (commitChanges s) = highlighted_features s"
  "original_selection (deleteFeatures ok fids s) = original_selection s"
  "highlighted_features (deleteFeatures ok fids s) = highlighted_features s"
  "layer_editable (deleteFeatures ok fids s) = layer_editable s"
  "events (deleteFeatures ok fids s) = events s @ [Host (DeleteFeatures fids)]"
  "updating_selection (deleteFeatures ok fids s) = updating_selection s"
  by (simp_all add: startEditing_def rollBack_def commitChanges_def deleteFeatures_def)

lemma delete_features_success_sets:
  "get_target_features s \<noteq> {} \<Longrightarrow>
     original_selection (delete_features True True s)
       = original_selection s - get_target_features s
   \<and> highlighted_features (delete_features True True s)
       = highlighted_features s - get_target_features s"
  by (simp add: delete_features_def Let_def selectByIds_guarded)

lemma copy_loop_fields [simp]:
  "original_selection (foldl (\<lambda>w feature.
       w\<lparr>clipboard_features := clipboard_features w @ [feature]\<rparr>) s fs) = original_selection s"
  "highlighted_features (foldl (\<lambda>w feature.
       w\<lparr>clipboard_features := clipboard_features w @ [feature]\<rparr>) s fs) = highlighted_features s"
  "table_rows (foldl (\<lambda>w feature.
       w\<lparr>clipboard_features := clipboard_features w @ [feature]\<rparr>) s fs) = table_rows s"
  "clipboard_features (foldl (\<lambda>w feature.
       w\<lparr>clipboard_features := clipboard_features w @ [feature]\<rparr>) s fs)
     = clipboard_features s @ fs"
  by (induction fs arbitrary: s) simp_all

subsection \<open>The invariant is kept by every operation\<close>

lemma on_table_selection_changed_inv:
  "selection_invariant s \<Longrightarrow> selection_invariant (on_table_selection_changed s)"
  using selected_fids_subset [of s "table_selected s"]
  by (auto simp: selection_invariant_def on_table_selection_changed_highlighted)

lemma set_table_selection_fields [simp]:
  "original_selection (set_table_selection rows s) = original_selection s"
  "table_rows (set_table_selection rows s) = table_rows s"
  "clipboard_features (set_table_selection rows s) = clipboard_features s"
  "updating_selection (set_table_selection rows s) = updating_selection s"
  "updating_highlights (set_table_selection rows s) = updating_highlights s"
  "layer_selected (set_table_selection rows s) = layer_selected s"
  "layer_features (set_table_selection rows s) = layer_features s"
  "layer_editable (set_table_selection rows s) = layer_editable s"
  by (simp_all add: set_table_selection_def)

lemma set_table_selection_inv:
  "selection_invariant s \<Longrightarrow> selection_invariant (set_table_selection rows s)"
proof -
  assume inv: "selection_invariant s"
  have "selection_invariant (s\<lparr>table_selected := rows\<rparr>)"
    using inv by (simp add: selection_invariant_def)
  then show ?thesis
    using inv by (simp add: set_table_selection_def on_table_selection_changed_inv)
qed

lemma view_updates_inv [simp]:
  "selection_invariant (emit e s) = selection_invariant s"
  "selection_invariant (viewport_update s) = selection_invariant s"
  "selection_invariant (update_info_label s) = selection_invariant s"
  "selection_invariant (update_button_states s) = selection_invariant s"
  "selection_invariant (update_map_highlighting s) = selection_invariant s"
  by (simp_all add: selection_invariant_def)

lemma flags_inv [simp]:
  "selection_invariant (s\<lparr>updating_selection := b\<rparr>) = selection_invariant s"
  "selection_invariant (s\<lparr>updating_highlights := b\<rparr>) = selection_invariant s"
  "selection_invariant (s\<lparr>last_clicked_row := r\<rparr>) = selection_invariant s"
  "selection_invariant (s\<lparr>layer_selected := ids\<rparr>) = selection_invariant s"
  "selection_invariant (s\<lparr>layer_features := fs\<rparr>) = selection_invariant s"
  "selection_invariant (s\<lparr>layer_editable := b\<rparr>) = selection_invariant s"
  "selection_invariant (s\<lparr>clipboard_features := c\<rparr>) = selection_invariant s"
  by (simp_all add: selection_invariant_def)

lemma populate_table_inv:
  "highlighted_features s \<subseteq> original_selection s \<Longrightarrow> selection_invariant (populate_table s)"
  using populate_table_rows [of s] by (simp add: selection_invariant_def)

lemma clearSelection_inv:
  "selection_invariant s \<Longrightarrow> selection_invariant (clearSelection s)"
  by (simp add: clearSelection_def set_table_selection_inv)

lemma selectAll_inv:
  "selection_invariant s \<Longrightarrow> selection_invariant (selectAll s)"
  by (simp add: selectAll_def set_table_selection_inv)

lemma select_rows_of_inv:
  "selection_invariant s \<Longrightarrow> selection_invariant (select_rows_of fids s)"
  by (simp add: select_rows_of_def set_table_selection_inv)

lemma on_layer_selection_changed_inv:
  "selection_invariant s \<Longrightarrow> selection_invariant (on_layer_selection_changed s)"
  by (auto simp: on_layer_selection_changed_def Let_def intro!: populate_table_inv)

lemma selectByIds_inv:
  "selection_invariant s \<Longrightarrow> selection_invariant (selectByIds ids s)"
  by (simp add: selectByIds_def on_layer_selection_changed_inv)

lemma refresh_table_inv: "selection_invariant (refresh_table s)"
  by (auto simp: refresh_table_def Let_def intro!: populate_table_inv)

lemma on_features_deleted_inv:
  "selection_invariant s \<Longrightarrow> selection_invariant (on_features_deleted fids s)"
proof -
  assume inv: "selection_invariant s"
  let ?t = "s\<lparr>original_selection := original_selection s - set fids,
               highlighted_features := highlighted_features s - set fids\<rparr>"
  have "highlighted_features ?t \<subseteq> original_selection ?t"
    using inv by (auto simp: selection_invariant_def)
  then have "selection_invariant (populate_table ?t)"
    by (rule populate_table_inv)
  then show ?thesis
    by (simp add: on_features_deleted_def Let_def)
qed

lemma reselect_to_highlighted_inv:
  "selection_invariant s \<Longrightarrow> selection_invariant (reselect_to_highlighted s)"
proof -
  assume inv: "selection_invariant s"
  let ?t = "s\<lparr>original_selection := highlighted_features s, highlighted_features := {},
               updating_selection := True\<rparr>"
  have sel: "selectByIds (original_selection ?t) ?t = ?t\<lparr>layer_selected := highlighted_features s\<rparr>"
    by (simp add: selectByIds_def on_layer_selection_changed_def)
  have "selection_invariant
          (populate_table (?t\<lparr>layer_selected := highlighted_features s,
                              updating_selection := False\<rparr>))"
    by (rule populate_table_inv) simp
  then show ?thesis
    using inv sel by (simp add: reselect_to_highlighted_def Let_def)
qed

lemma clear_highlights_inv:
  "selection_invariant s \<Longrightarrow> selection_invariant (clear_highlights s)"
proof -
  assume inv: "selection_invariant s"
  have "selection_invariant (s\<lparr>highlighted_features := {}, last_clicked_row := None\<rparr>)"
    using inv by (simp add: selection_invariant_def)
  then have "selection_invariant
               (clearSelection (s\<lparr>highlighted_features := {}, last_clicked_row := None\<rparr>))"
    by (rule clearSelection_inv)
  then show ?thesis
    using inv by (simp add: clear_highlights_def Let_def)
qed

lemma highlight_all_inv:
  "selection_invariant s \<Longrightarrow> selection_invariant (highlight_all s)"
proof -
  assume inv: "selection_invariant s"
  have "selection_invariant (s\<lparr>highlighted_features := original_selection s\<rparr>)"
    using inv by (simp add: selection_invariant_def)
  then have "selection_invariant
               (selectAll (s\<lparr>highlighted_features := original_selection s\<rparr>))"
    by (rule selectAll_inv)
  then show ?thesis
    by (simp add: highlight_all_def Let_def)
qed

lemma highlights_replaced_inv:
  "selection_invariant s \<Longrightarrow> ids \<subseteq> original_selection s \<Longrightarrow>
   selection_invariant
     ((select_rows_of fids
        (clearSelection (s\<lparr>highlighted_features := ids, updating_highlights := True\<rparr>)))
      \<lparr>updating_highlights := False\<rparr>)"
proof -
  assume inv: "selection_invariant s" and sub: "ids \<subseteq> original_selection s"
  have "selection_invariant (s\<lparr>highlighted_features := ids, updating_highlights := True\<rparr>)"
    using inv sub by (simp add: selection_invariant_def)
  then show ?thesis
    by (simp add: select_rows_of_inv clearSelection_inv)
qed

lemma invert_highlights_inv:
  "selection_invariant s \<Longrightarrow> selection_invariant (invert_highlights s)"
proof -
  assume inv: "selection_invariant s"
  have "original_selection s - highlighted_features s \<subseteq> original_selection s"
    by blast
  from highlights_replaced_inv [OF inv this] inv show ?thesis
    by (simp add: invert_highlights_def Let_def)
qed

lemma select_by_expression_inv:
  "selection_invariant s \<Longrightarrow> selection_invariant (select_by_expression Q dialog s)"
proof -
  assume inv: "selection_invariant s"
  have inv0: "selection_invariant (emit e s)" for e
    using inv by simp
  have sub: "set (map fid (filter result (getFeatures (original_selection (emit e s)) (emit e s))))
               \<subseteq> original_selection (emit e s)" for result e
    by (auto simp: getFeatures_def)
  show ?thesis
    using inv highlights_replaced_inv [OF inv0 sub]
    by (simp add: select_by_expression_def Let_def split: option.split expression.split)
qed

lemma on_editing_mode_changed_inv:
  "selection_invariant s \<Longrightarrow> selection_invariant (on_editing_mode_changed s)"
proof -
  assume inv: "selection_invariant s"
  let ?t = "(populate_table s)\<lparr>highlighted_features := highlighted_features s,
                                updating_highlights := True\<rparr>"
  have "selection_invariant ?t"
    using inv populate_table_rows [of s] by (simp add: selection_invariant_def)
  then have "selection_invariant (select_rows_of fids ?t)" for fids
    by (rule select_rows_of_inv)
  then show ?thesis
    by (simp add: on_editing_mode_changed_def Let_def)
qed

lemma copy_features_inv:
  "selection_invariant s \<Longrightarrow> selection_invariant (copy_features s)"
  by (simp add: copy_features_def Let_def selection_invariant_def)

lemma host_calls_inv [simp]:
  "selection_invariant (startEditing s) = selection_invariant s"
  "selection_invariant (commitChanges s) = selection_invariant s"
  "selection_invariant (rollBack s) = selection_invariant s"
  "selection_invariant (deleteFeatures ok fids s) = selection_invariant s"
  "selection_invariant (addFeatures added fs s) = selection_invariant s"
  by (simp_all add: startEditing_def commitChanges_def rollBack_def deleteFeatures_def
        addFeatures_def split: option.split)


lemma delete_features_inv:
  "selection_invariant s \<Longrightarrow> selection_invariant (delete_features reply_yes delete_ok s)"
proof -
  assume inv: "selection_invariant s"
  have step: "selection_invariant
          (selectByIds ids
             ((update_button_states (update_info_label (viewport_update
                 (populate_table (t\<lparr>original_selection := original_selection t - fids,
                                      highlighted_features := highlighted_features t - fids\<rparr>)))))
              \<lparr>updating_selection := True\<rparr>))"
    if "selection_invariant t" for t fids ids
  proof -
    have "highlighted_features t - fids \<subseteq> original_selection t - fids"
      using that by (auto simp: selection_invariant_def)
    then have "selection_invariant
                 (populate_table (t\<lparr>original_selection := original_selection t - fids,
                                      highlighted_features := highlighted_features t - fids\<rparr>))"
      by (intro populate_table_inv) simp
    then show ?thesis
      by (intro selectByIds_inv) simp
  qed
  show ?thesis
    using inv by (simp add: delete_features_def Let_def step)
qed

lemma cut_features_inv:
  "selection_invariant s \<Longrightarrow> selection_invariant (cut_features reply_yes delete_ok s)"
  by (simp add: cut_features_def delete_features_inv copy_features_inv)

lemma paste_features_inv:
  "selection_invariant s \<Longrightarrow> selection_invariant (paste_features added s)"
  by (simp add: paste_features_def Let_def refresh_table_inv split: option.split)

lemma zoom_to_highlighted_inv:
  "selection_invariant s \<Longrightarrow> selection_invariant (zoom_to_highlighted s)"
  by (simp add: zoom_to_highlighted_def Let_def selectByIds_inv)

lemma open_field_calculator_inv:
  "selection_invariant s \<Longrightarrow> selection_invariant (open_field_calculator s)"
  by (simp add: open_field_calculator_def Let_def)

lemma flash_fid_inv:
  "selection_invariant s \<Longrightarrow> selection_invariant (snd (flash_fid f s))"
  by (simp add: flash_fid_def Let_def split: sum.split)

lemma exec_inv: "selection_invariant s \<Longrightarrow> selection_invariant (exec x s)"
  by (cases x)
     (simp_all add: selectByIds_inv set_table_selection_inv select_by_expression_inv
        clear_highlights_inv highlight_all_inv invert_highlights_inv
        reselect_to_highlighted_inv on_features_deleted_inv refresh_table_inv
        delete_features_inv cut_features_inv copy_features_inv paste_features_inv
        zoom_to_highlighted_inv open_field_calculator_inv flash_fid_inv
        on_editing_mode_changed_inv)

lemma run_inv: "selection_invariant s \<Longrightarrow> selection_invariant (run xs s)"
  by (induction xs arbitrary: s) (simp_all add: exec_inv)

lemma init_inv: "selection_invariant (init ids fs ed)"
proof -
  have "selection_invariant (populate_table t)" if "highlighted_features t = {}" for t
    using that by (intro populate_table_inv) simp
  then show ?thesis
    by (simp add: init_def Let_def)
qed

subsection \<open>Between operations both guard flags are clear\<close>

text \<open>
  An operation that sets a guard flag resets it before it returns, so the handlers that
  the host and the user trigger between two operations run with both flags clear; and
  the rows of the table carry selected ids in every state a run reaches.
\<close>

lemma select_rows_of_flags [simp]:
  "updating_selection (select_rows_of fids s) = updating_selection s"
  "updating_highlights (select_rows_of fids s) = updating_highlights s"
  "updating_selection (clearSelection s) = updating_selection s"
  "updating_highlights (clearSelection s) = updating_highlights s"
  "updating_selection (selectAll s) = updating_selection s"
  "updating_highlights (selectAll s) = updating_highlights s"
  by (simp_all add: select_rows_of_def clearSelection_def selectAll_def)

lemma on_layer_selection_changed_flags [simp]:
  "updating_selection (on_layer_selection_changed s) = updating_selection s"
  "updating_highlights (on_layer_selection_changed s) = updating_highlights s"
  "updating_selection (selectByIds ids s) = updating_selection s"
  "updating_highlights (selectByIds ids s) = updating_highlights s"
  by (simp_all add: selectByIds_def on_layer_selection_changed_def Let_def)

lemma host_call_flags [simp]:
  "updating_selection (startEditing s) = updating_selection s"
  "updating_highlights (startEditing s) = updating_highlights s"
  "updating_selection (commitChanges s) = updating_selection s"
  "updating_highlights (commitChanges s) = updating_highlights s"
  "updating_selection (rollBack s) = updating_selection s"
  "updating_highlights (rollBack s) = updating_highlights s"
  "updating_highlights (deleteFeatures ok fids s) = updating_highlights s"
  "updating_selection (addFeatures added fs s) = updating_selection s"
  "updating_highlights (addFeatures added fs s) = updating_highlights s"
  by (simp_all add: startEditing_def commitChanges_def rollBack_def deleteFeatures_def
        addFeatures_def split: option.split)

lemma copy_loop_flags [simp]:
  "updating_selection (foldl (\<lambda>w feature.
       w\<lparr>clipboard_features := clipboard_features w @ [feature]\<rparr>) s fs) = updating_selection s"
  "updating_highlights (foldl (\<lambda>w feature.
       w\<lparr>clipboard_features := clipboard_features w @ [feature]\<rparr>) s fs) = updating_highlights s"
  by (induction fs arbitrary: s) simp_all

lemma refresh_table_flags [simp]:
  "updating_selection (refresh_table s) = updating_selection s"
  "updating_highlights (refresh_table s) = updating_highlights s"
  by (simp_all add: refresh_table_def Let_def)

lemma copy_features_flags [simp]:
  "updating_selection (copy_features s) = updating_selection s"
  "updating_highlights (copy_features s) = updating_highlights s"
  by (simp_all add: copy_features_def Let_def)

lemma delete_features_guards:
  "guards_clear s \<Longrightarrow> guards_clear (delete_features reply_yes delete_ok s)"
  by (simp add: guards_clear_def delete_features_def Let_def)

lemma exec_guards: "guards_clear s \<Longrightarrow> guards_clear (exec x s)"
proof (cases x)
  case (Op_delete_features r ok)
  then show "guards_clear s \<Longrightarrow> guards_clear (exec x s)"
    by (simp add: delete_features_guards)
next
  case (Op_cut_features r ok)
  then show "guards_clear s \<Longrightarrow> guards_clear (exec x s)"
    using delete_features_guards [of "copy_features s" r ok]
    by (simp add: cut_features_def guards_clear_def)
qed (simp_all add: guards_clear_def select_by_expression_def clear_highlights_def
       highlight_all_def invert_highlights_def reselect_to_highlighted_def
       on_features_deleted_def paste_features_def zoom_to_highlighted_def
       open_field_calculator_def flash_fid_def on_editing_mode_changed_def Let_def
       split: option.split expression.split sum.split)

lemma run_guards: "guards_clear s \<Longrightarrow> guards_clear (run xs s)"
  by (induction xs arbitrary: s) (simp_all add: exec_guards)

lemma init_guards: "guards_clear (init ids fs ed)"
  by (simp add: guards_clear_def init_def Let_def)

lemma reachable_table_rows:
  "set (table_rows (run xs (init ids fs ed))) \<subseteq> original_selection (run xs (init ids fs ed))"
  using run_inv [OF init_inv] by (simp add: selection_invariant_def)

lemma reachable_guards_clear:
  "\<not> updating_selection (run xs (init ids fs ed))"
  "\<not> updating_highlights (run xs (init ids fs ed))"
  using run_guards [OF init_guards] by (simp_all add: guards_clear_def)

subsection \<open>The example states, evaluated\<close>

lemmas model_defs =
  init_def populate_table_def getFeatures_def update_info_label_def update_button_states_def
  update_map_highlighting_def emit_def viewport_update_def set_table_selection_def
  on_table_selection_changed_def get_fid_for_row_def feature_of_def Let_def

lemma example_widget_eq:
  "example_widget =
    \<lparr>original_selection = {1, 2, 3}, highlighted_features = {2},
     clipboard_features = [], last_clicked_row = Some 1,
     updating_selection = False, updating_highlights = False,
     table_rows = [1, 2, 3], table_selected = {1}, info_label = (3, 1),
     enabled_actions =
       {action_copy, action_zoom, action_field_calc, action_highlight_all,
        action_select_expr, action_invert, action_clear_highlights, action_reselect},
     cyan_rubber_band = [1, 3], yellow_rubber_band = [2],
     layer_selected = {1, 2, 3}, layer_features = map feature_of [1, 2, 3],
     layer_editable = False,
     events = [CanvasRefresh, ViewportUpdate, CanvasRefresh, HighlightChanged {2}]\<rparr>"
  by (simp add: example_widget_def model_defs)

lemma example_empty_eq:
  "example_empty =
    \<lparr>original_selection = {}, highlighted_features = {},
     clipboard_features = [], last_clicked_row = None,
     updating_selection = False, updating_highlights = False,
     table_rows = [], table_selected = {}, info_label = (0, 0),
     enabled_actions = {},
     cyan_rubber_band = [], yellow_rubber_band = [],
     layer_selected = {}, layer_features = [],
     layer_editable = False,
     events = [CanvasRefresh]\<rparr>"
  by (simp add: example_empty_def model_defs)

lemma example_editing_eq:
  "example_editing =
    \<lparr>original_selection = {1, 2}, highlighted_features = {},
     clipboard_features = [], last_clicked_row = None,
     updating_selection = False, updating_highlights = False,
     table_rows = [1, 2], table_selected = {}, info_label = (2, 0),
     enabled_actions =
       {action_copy, action_zoom, action_field_calc, action_delete, action_cut,
        action_highlight_all, action_select_expr, action_invert},
     cyan_rubber_band = [1, 2], yellow_rubber_band = [],
     layer_selected = {1, 2}, layer_features = map feature_of [1, 2],
     layer_editable = True,
     events = [CanvasRefresh]\<rparr>"
  by (simp add: example_editing_def model_defs)

lemma example_scenario_click:
  "original_selection (set_table_selection {1, 3} example_scenario) = {1, 2, 3, 4, 5}"
  "highlighted_features (set_table_selection {1, 3} example_scenario) = {2, 4}"
  by (simp_all add: example_scenario_def model_defs)

lemma reselect_to_highlighted_sets:
  "highlighted_features s \<noteq> {} \<Longrightarrow>
     original_selection (reselect_to_highlighted s) = highlighted_features s
   \<and> highlighted_features (reselect_to_highlighted s) = {}
   \<and> layer_selected (reselect_to_highlighted s) = highlighted_features s"
  by (simp add: reselect_to_highlighted_def Let_def selectByIds_guarded)

lemma example_widget_fields:
  "original_selection example_widget = {1, 2, 3}"
  "highlighted_features example_widget = {2}"
  "table_rows example_widget = [1, 2, 3]"
  "table_selected example_widget = {1}"
  "updating_selection example_widget = False"
  "updating_highlights example_widget = False"
  "clipboard_features example_widget = []"
  "layer_features example_widget = map feature_of [1, 2, 3]"
  "layer_editable example_widget = False"
  by (simp_all add: example_widget_eq)

lemma example_empty_fields:
  "original_selection example_empty = {}"
  "highlighted_features example_empty = {}"
  by (simp_all add: example_empty_eq)

lemma example_editing_fields:
  "original_selection example_editing = {1, 2}"
  "highlighted_features example_editing = {}"
  "layer_editable example_editing = True"
  by (simp_all add: example_editing_eq)

lemma example_targets:
  "get_target_features example_widget = {2}"
  "get_target_features example_empty = {}"
  "get_target_features example_editing = {1, 2}"
  by (simp_all add: get_target_features_def example_widget_fields example_empty_fields
        example_editing_fields)

lemma example_widget_selected_fids:
  "Option.these ((\<lambda>row. get_fid_for_row row example_widget) ` table_selected example_widget)
   = {2}"
  by (simp add: get_fid_for_row_def example_widget_fields)

lemma example_widget_matches:
  "fid ` {f \<in> set (layer_features example_widget). fid f = 2} \<inter> original_selection example_widget
   = {2}"
proof -
  have "{f \<in> set (layer_features example_widget). fid f = 2}
          = set (filter (\<lambda>f. fid f = 2) (layer_features example_widget))"
    by simp
  also have "\<dots> = {feature_of 2}"
    by (simp add: example_widget_fields feature_of_def)
  finally show ?thesis
    by (simp add: example_widget_fields feature_of_def)
qed

subsection \<open>Deleting and filtering\<close>

lemma delete_features_failure:
  "get_target_features s \<noteq> {} \<Longrightarrow>
     new_events s (delete_features True False s) =
       [Message Question ''Delete Features''
          (''Delete {} '' @ (if highlighted_features s \<noteq> {} then ''highlighted''
                             else ''all selected'') @ '' features?'')
          [card (get_target_features s)]]
       @ (if layer_editable s then [Host (DeleteFeatures (get_target_features s))]
          else [Host StartEditing, Host (DeleteFeatures (get_target_features s)),
                Host RollBack])
       @ [Message Warning ''Error'' ''Failed to delete features.'' []]
   \<and> layer_editable (delete_features True False s) = layer_editable s
   \<and> layer_features (delete_features True False s) = layer_features s"
  by (simp add: delete_features_def Let_def new_events_def deleteFeatures_def
        startEditing_def rollBack_def emit_def)

lemma select_by_expression_effect:
  "original_selection s \<noteq> {} \<Longrightarrow> expr_text \<noteq> [] \<Longrightarrow>
   QgsExpression expr_text = Evaluates result \<Longrightarrow>
     highlighted_features (select_by_expression QgsExpression (Some expr_text) s)
       = fid ` {f \<in> set (layer_features s). result f} \<inter> original_selection s
   \<and> new_events s (select_by_expression QgsExpression (Some expr_text) s)
       = [DialogExec ''SelectionFilterDialog'', ViewportUpdate, CanvasRefresh,
          Message Success ''Filter'' ''Highlighted {} features.''
            [card (fid ` {f \<in> set (layer_features s). result f} \<inter> original_selection s)]]"
proof -
  have m: "fid ` {x \<in> set (getFeatures (original_selection s) (emit e s)). result x}
        = fid ` {f \<in> set (layer_features s). result f} \<inter> original_selection s" for e
    by (auto simp: getFeatures_def)
  assume "original_selection s \<noteq> {}" "expr_text \<noteq> []"
    "QgsExpression expr_text = Evaluates result"
  then show ?thesis
    by (simp add: select_by_expression_def Let_def new_events_def m)
qed

section \<open>The claims\<close>

text \<open>
  Claim C1. In every state that the widget reaches from its construction
  (\<open>original_selection\<close> taken from the layer's selection, \<open>highlighted_features\<close>
  empty) by any sequence of operations, the highlighted ids are a subset of the
  selected ids. The operations are those of \<open>op\<close>: a change of the layer's selection
  (setBase), a click in the table and the filter (setHighlighted), clearing, highlighting
  all, inverting, narrowing to the highlighted ids, the deletion of features (removeIds)
  and the refresh, and besides them delete, cut, copy, paste, zoom, the field calculator,
  the flash of a feature and the changes of the edit mode and of the layer's features.
\<close>

theorem highlighted_subset_of_original:
  "highlighted_features (run xs (init selectedFeatureIds features editable))
     \<subseteq> original_selection (run xs (init selectedFeatureIds features editable))"
  using run_inv [OF init_inv] by (simp add: selection_invariant_def)

theorem highlighted_subset_of_original_witness:
  "original_selection
     (run [Op_table_click {1, 3}, Op_invert_highlights, Op_reselect_to_highlighted]
        example_scenario) = {1, 3, 5}
   \<and> highlighted_features
     (run [Op_table_click {1, 3}, Op_invert_highlights, Op_reselect_to_highlighted]
        example_scenario) = {}
   \<and> highlighted_features
     (run [Op_table_click {1, 3}, Op_invert_highlights, Op_reselect_to_highlighted]
        example_scenario)
     \<subseteq> original_selection
     (run [Op_table_click {1, 3}, Op_invert_highlights, Op_reselect_to_highlighted]
        example_scenario)"
proof -
  let ?clicked = "set_table_selection {1, 3} example_scenario"
  have inverted: "highlighted_features (invert_highlights ?clicked) = {1, 3, 5}"
    unfolding invert_highlights_sets example_scenario_click by auto
  then have "highlighted_features (invert_highlights ?clicked) \<noteq> {}"
    by simp
  note narrowed = reselect_to_highlighted_sets [OF this, unfolded inverted]
  have run: "run [Op_table_click {1, 3}, Op_invert_highlights, Op_reselect_to_highlighted]
               example_scenario = reselect_to_highlighted (invert_highlights ?clicked)"
    by (simp only: run.simps exec.simps)
  show ?thesis
    unfolding run
    using narrowed
      highlighted_subset_of_original
        [of "[Op_table_click {1, 3}, Op_invert_highlights, Op_reselect_to_highlighted]"
            "{1, 2, 3, 4, 5}" "map feature_of [1, 2, 3, 4, 5]" False,
         folded example_scenario_def, unfolded run]
    by blast
qed

text \<open>
  Claim C2. \<open>get_target_features\<close> returns the highlighted ids when there are any and
  the selected ids otherwise. Over a store of set objects, in which the two attributes
  refer to the objects \<open>original\<close> and \<open>highlighted\<close>, the result is a new object with
  that value, and every object of the store, the two sets among them, is as before.
  With the ids 1, 2, 3 selected the result is \<open>{1, 2, 3}\<close> when nothing is highlighted
  and \<open>{2}\<close> when 2 is.
\<close>

theorem get_target_features_copy:
  "original < length h \<Longrightarrow> highlighted < length h \<Longrightarrow>
   h ! original = original_selection s \<Longrightarrow> h ! highlighted = highlighted_features s \<Longrightarrow>
     get_target_features s =
       (if highlighted_features s \<noteq> {} then highlighted_features s
        else original_selection s)
   \<and> (case get_target_features_obj original highlighted h of (r, h') \<Rightarrow>
        r \<notin> {original, highlighted} \<and> r < length h'
      \<and> h' ! r = get_target_features s
      \<and> take (length h) h' = h)
   \<and> get_target_features (s\<lparr>original_selection := {1, 2, 3}, highlighted_features := {}\<rparr>)
       = {1, 2, 3}
   \<and> get_target_features (s\<lparr>original_selection := {1, 2, 3}, highlighted_features := {2}\<rparr>)
       = {2}"
  by (auto simp: get_target_features_def get_target_features_obj_def set_copy_def nth_append)

theorem get_target_features_copy_witness:
  "(0::nat) < length [{1, 2, 3}, {2::int}] \<and> (1::nat) < length [{1, 2, 3}, {2::int}]
   \<and> [{1, 2, 3}, {2}] ! 0 = original_selection example_widget
   \<and> [{1, 2, 3}, {2}] ! 1 = highlighted_features example_widget
   \<and> get_target_features example_widget = {2}
   \<and> get_target_features_obj 0 1 [{1, 2, 3}, {2}] = (2, [{1, 2, 3}, {2}, {2}])"
proof -
  have h: "(0::nat) < length [{1, 2, 3}, {2::int}]" "(1::nat) < length [{1, 2, 3}, {2::int}]"
    "[{1, 2, 3}, {2}] ! 0 = original_selection example_widget"
    "[{1, 2, 3}, {2}] ! 1 = highlighted_features example_widget"
    by (simp_all add: example_widget_eq)
  from get_target_features_copy [OF h] h show ?thesis
    by (simp add: example_widget_eq get_target_features_obj_def set_copy_def)
qed

text \<open>
  Claim C3, as the code has it. When \<open>layer.deleteFeatures\<close> reports failure,
  \<open>delete_features\<close> leaves \<open>original_selection\<close> and \<open>highlighted_features\<close> as
  they were and shows the warning; the layer's data and edit mode are as before. It calls
  \<open>rollBack\<close> exactly when it had started the edit session itself, that is when the layer
  was not in edit mode before the call. The ids are removed from both sets only when the
  call succeeds: not when it fails, not when the user answers No, and not when there is
  no target.
\<close>

theorem delete_features_failure_keeps_sets:
  "original_selection (delete_features reply_yes False s) = original_selection s
   \<and> highlighted_features (delete_features reply_yes False s) = highlighted_features s
   \<and> (get_target_features s \<noteq> {} \<longrightarrow>
        Message Warning ''Error'' ''Failed to delete features.'' []
          \<in> set (new_events s (delete_features True False s))
      \<and> (Host RollBack \<in> set (new_events s (delete_features True False s))
           \<longleftrightarrow> \<not> layer_editable s)
      \<and> layer_editable (delete_features True False s) = layer_editable s
      \<and> layer_features (delete_features True False s) = layer_features s
      \<and> original_selection (delete_features True True s)
           = original_selection s - get_target_features s
      \<and> highlighted_features (delete_features True True s)
           = highlighted_features s - get_target_features s)
   \<and> original_selection (delete_features False delete_ok s) = original_selection s
   \<and> highlighted_features (delete_features False delete_ok s) = highlighted_features s
   \<and> (get_target_features s = {} \<longrightarrow> delete_features reply_yes delete_ok s = s)"
proof -
  have sets: "original_selection (delete_features reply_yes False s) = original_selection s"
    "highlighted_features (delete_features reply_yes False s) = highlighted_features s"
    "original_selection (delete_features False delete_ok s) = original_selection s"
    "highlighted_features (delete_features False delete_ok s) = highlighted_features s"
    by (simp_all add: delete_features_def Let_def)
  have none: "get_target_features s = {} \<longrightarrow> delete_features reply_yes delete_ok s = s"
    by (simp add: delete_features_def)
  show ?thesis
    using sets none delete_features_success_sets [of s] delete_features_failure [of s]
    by simp
qed

theorem delete_features_failure_keeps_sets_witness:
  "get_target_features example_widget \<noteq> {}
   \<and> original_selection (delete_features True False example_widget) = {1, 2, 3}
   \<and> highlighted_features (delete_features True False example_widget) = {2}
   \<and> Host RollBack \<in> set (new_events example_widget (delete_features True False example_widget))
   \<and> \<not> layer_editable (delete_features True False example_widget)
   \<and> original_selection (delete_features True True example_widget) = {1, 3}
   \<and> highlighted_features (delete_features True True example_widget) = {}
   \<and> get_target_features example_empty = {}
   \<and> delete_features True True example_empty = example_empty"
proof -
  have target: "get_target_features example_widget \<noteq> {}"
    by (simp add: example_targets)
  from delete_features_failure_keeps_sets [of True example_widget]
       delete_features_failure_keeps_sets [of True example_empty True] target
  show ?thesis
    by (auto simp: example_targets example_widget_fields)
qed

text \<open>
  The claim as stated has the attempted transaction rolled back on every failure. On a
  layer that is already in edit mode the failed delete is followed by the warning only:
  no \<open>rollBack\<close> is called and the layer stays in edit mode.
\<close>

theorem delete_failure_in_edit_mode_no_rollback:
  "layer_editable example_editing
   \<and> get_target_features example_editing = {1, 2}
   \<and> original_selection (delete_features True False example_editing) = {1, 2}
   \<and> Message Warning ''Error'' ''Failed to delete features.'' []
        \<in> set (new_events example_editing (delete_features True False example_editing))
   \<and> Host RollBack
        \<notin> set (new_events example_editing (delete_features True False example_editing))
   \<and> layer_editable (delete_features True False example_editing)"
proof -
  have "get_target_features example_editing \<noteq> {}"
    by (simp add: example_targets)
  from delete_features_failure [OF this] show ?thesis
    by (simp add: example_targets example_editing_fields delete_features_def Let_def)
qed

text \<open>
  Claim C4. While \<open>updating_selection\<close> is set, the handler of the layer's
  \<open>selectionChanged\<close> signal returns the state as it is: a write to the layer's
  selection made under the flag changes the layer's selection and nothing of the widget,
  neither set and no view.
\<close>

theorem selection_event_ignored_under_guard:
  "updating_selection s \<Longrightarrow>
     on_layer_selection_changed s = s
   \<and> selectByIds ids s = s\<lparr>layer_selected := ids\<rparr>"
  by (simp add: selectByIds_def on_layer_selection_changed_def)

theorem selection_event_ignored_under_guard_witness:
  "updating_selection (example_widget\<lparr>updating_selection := True\<rparr>)
   \<and> on_layer_selection_changed (example_widget\<lparr>updating_selection := True\<rparr>)
       = example_widget\<lparr>updating_selection := True\<rparr>
   \<and> original_selection (selectByIds {2} (example_widget\<lparr>updating_selection := True\<rparr>))
       = {1, 2, 3}
   \<and> layer_selected (selectByIds {2} (example_widget\<lparr>updating_selection := True\<rparr>)) = {2}"
proof -
  have guard: "updating_selection (example_widget\<lparr>updating_selection := True\<rparr>)"
    by simp
  from selection_event_ignored_under_guard [OF guard, of "{2}"] guard show ?thesis
    by (simp add: example_widget_fields)
qed

text \<open>
  Claim C5, as the code has it. The handler of the table's selection, when the widget
  is not itself changing that selection and the rows carry selected ids (as they do in
  every reachable state), replaces \<open>highlighted_features\<close> by the ids of the selected
  rows intersected with \<open>original_selection\<close>, and when that set is the current one it
  returns the state as it is. The filter, on a selection that is not empty and an
  expression that parses, replaces \<open>highlighted_features\<close> by the ids of the matching
  features intersected with \<open>original_selection\<close>; it has no such guard, and whatever
  the set was before it repaints the table, refreshes the canvas and reports the count.
\<close>

theorem setHighlighted_paths:
  "(\<not> updating_highlights s \<and> set (table_rows s) \<subseteq> original_selection s \<longrightarrow>
      highlighted_features (on_table_selection_changed s)
        = Option.these ((\<lambda>row. get_fid_for_row row s) ` table_selected s)
            \<inter> original_selection s
    \<and> (Option.these ((\<lambda>row. get_fid_for_row row s) ` table_selected s)
            \<inter> original_selection s = highlighted_features s
        \<longrightarrow> on_table_selection_changed s = s))
   \<and> (original_selection s \<noteq> {} \<and> expr_text \<noteq> [] \<and> QgsExpression expr_text = Evaluates result
      \<longrightarrow>
      highlighted_features (select_by_expression QgsExpression (Some expr_text) s)
        = fid ` {f \<in> set (layer_features s). result f} \<inter> original_selection s
    \<and> new_events s (select_by_expression QgsExpression (Some expr_text) s)
        = [DialogExec ''SelectionFilterDialog'', ViewportUpdate, CanvasRefresh,
           Message Success ''Filter'' ''Highlighted {} features.''
             [card (fid ` {f \<in> set (layer_features s). result f} \<inter> original_selection s)]])"
proof -
  have sub: "set (table_rows s) \<subseteq> original_selection s \<Longrightarrow>
      Option.these ((\<lambda>row. get_fid_for_row row s) ` table_selected s) \<inter> original_selection s
      = Option.these ((\<lambda>row. get_fid_for_row row s) ` table_selected s)"
    using selected_fids_subset [of s "table_selected s"] by blast
  have table: "\<not> updating_highlights s \<and> set (table_rows s) \<subseteq> original_selection s \<longrightarrow>
      highlighted_features (on_table_selection_changed s)
        = Option.these ((\<lambda>row. get_fid_for_row row s) ` table_selected s)
            \<inter> original_selection s
    \<and> (Option.these ((\<lambda>row. get_fid_for_row row s) ` table_selected s)
            \<inter> original_selection s = highlighted_features s
        \<longrightarrow> on_table_selection_changed s = s)"
    using sub by (simp add: on_table_selection_changed_def Let_def)
  from table select_by_expression_effect [of s expr_text QgsExpression result]
  show ?thesis by blast
qed

theorem setHighlighted_paths_witness:
  "\<not> updating_highlights example_widget
   \<and> set (table_rows example_widget) \<subseteq> original_selection example_widget
   \<and> Option.these ((\<lambda>row. get_fid_for_row row example_widget) ` table_selected example_widget)
        \<inter> original_selection example_widget = highlighted_features example_widget
   \<and> on_table_selection_changed example_widget = example_widget
   \<and> original_selection example_widget \<noteq> {} \<and> ''$id = 2'' \<noteq> []
   \<and> example_filter ''$id = 2'' = Evaluates (\<lambda>f. fid f = 2)
   \<and> highlighted_features (select_by_expression example_filter (Some ''$id = 2'') example_widget)
       = {2}"
proof -
  have table: "\<not> updating_highlights example_widget"
    "set (table_rows example_widget) \<subseteq> original_selection example_widget"
    by (simp_all add: example_widget_fields)
  have same: "Option.these ((\<lambda>row. get_fid_for_row row example_widget)
                  ` table_selected example_widget)
        \<inter> original_selection example_widget = highlighted_features example_widget"
    unfolding example_widget_selected_fids
    by (simp add: example_widget_fields)
  have expr: "original_selection example_widget \<noteq> {}" "''$id = 2'' \<noteq> []"
    "example_filter ''$id = 2'' = Evaluates (\<lambda>f. fid f = 2)"
    by (simp_all add: example_widget_fields example_filter_def)
  note paths = setHighlighted_paths
         [of example_widget "''$id = 2''" example_filter "\<lambda>f. fid f = 2",
          unfolded example_widget_matches]
  from paths table same have "on_table_selection_changed example_widget = example_widget"
    by blast
  moreover from paths expr
  have "highlighted_features
          (select_by_expression example_filter (Some ''$id = 2'') example_widget) = {2}"
    by blast
  ultimately show ?thesis
    using table same expr by blast
qed

text \<open>
  The claim as stated makes the filter a no-op when the matching ids are the highlighted
  ones. With feature 2 highlighted and a filter that matches feature 2 only, the set is
  the same afterwards, and yet the table is repainted, the canvas refreshed and a
  message shown.
\<close>

theorem filter_match_is_not_a_noop:
  "highlighted_features (select_by_expression example_filter (Some ''$id = 2'') example_widget)
     = highlighted_features example_widget
   \<and> new_events example_widget
        (select_by_expression example_filter (Some ''$id = 2'') example_widget)
     = [DialogExec ''SelectionFilterDialog'', ViewportUpdate, CanvasRefresh,
        Message Success ''Filter'' ''Highlighted {} features.'' [1]]
   \<and> select_by_expression example_filter (Some ''$id = 2'') example_widget \<noteq> example_widget"
proof -
  have expr: "original_selection example_widget \<noteq> {}" "''$id = 2'' \<noteq> []"
    "example_filter ''$id = 2'' = Evaluates (\<lambda>f. fid f = 2)"
    by (simp_all add: example_widget_fields example_filter_def)
  note effect = select_by_expression_effect
         [of example_widget "''$id = 2''" example_filter "\<lambda>f. fid f = 2",
          OF expr, unfolded example_widget_matches]
  have unchanged: "new_events example_widget example_widget = []"
    by (simp add: new_events_def)
  have "select_by_expression example_filter (Some ''$id = 2'') example_widget
          \<noteq> example_widget"
  proof
    assume "select_by_expression example_filter (Some ''$id = 2'') example_widget
              = example_widget"
    with effect unchanged show False
      by simp
  qed
  with effect show ?thesis
    by (simp add: example_widget_fields)
qed

text \<open>
  Claim C6. With highlighted ids, \<open>reselect_to_highlighted\<close> makes them the selection,
  leaves nothing highlighted and sets the layer's selection to them; with none it
  changes neither set and nothing else, and only shows the informational message.
\<close>

theorem reselect_to_highlighted_narrows:
  "(highlighted_features s \<noteq> {} \<longrightarrow>
      original_selection (reselect_to_highlighted s) = highlighted_features s
    \<and> highlighted_features (reselect_to_highlighted s) = {}
    \<and> layer_selected (reselect_to_highlighted s) = highlighted_features s)
   \<and> (highlighted_features s = {} \<longrightarrow>
      reselect_to_highlighted s =
        s\<lparr>events := events s @
             [Message Info ''Selection'' ''No features highlighted to re-select.'' []]\<rparr>)"
  by (simp add: reselect_to_highlighted_def Let_def selectByIds_guarded emit_def)

theorem reselect_to_highlighted_narrows_witness:
  "highlighted_features example_widget \<noteq> {}
   \<and> original_selection (reselect_to_highlighted example_widget) = {2}
   \<and> highlighted_features (reselect_to_highlighted example_widget) = {}
   \<and> layer_selected (reselect_to_highlighted example_widget) = {2}
   \<and> highlighted_features example_empty = {}
   \<and> original_selection (reselect_to_highlighted example_empty) = {}
   \<and> highlighted_features (reselect_to_highlighted example_empty) = {}
   \<and> new_events example_empty (reselect_to_highlighted example_empty)
       = [Message Info ''Selection'' ''No features highlighted to re-select.'' []]"
proof -
  have h: "highlighted_features example_widget \<noteq> {}" "highlighted_features example_empty = {}"
    by (simp_all add: example_widget_fields example_empty_fields)
  from reselect_to_highlighted_narrows [of example_widget]
       reselect_to_highlighted_narrows [of example_empty] h
  show ?thesis
    by (simp add: example_widget_fields example_empty_fields new_events_def)
qed

text \<open>
  Claim C7. In a state whose highlighted ids are selected ids, \<open>invert_highlights\<close>
  sets \<open>highlighted_features\<close> to \<open>original_selection\<close> minus the highlighted ids and
  leaves \<open>original_selection\<close> as it is, and a second call gives the highlighted ids of
  the start.
\<close>

theorem invert_highlights_self_inverse:
  "highlighted_features s \<subseteq> original_selection s \<Longrightarrow>
     highlighted_features (invert_highlights s) = original_selection s - highlighted_features s
   \<and> original_selection (invert_highlights s) = original_selection s
   \<and> highlighted_features (invert_highlights (invert_highlights s)) = highlighted_features s"
  by (auto simp: invert_highlights_sets)

theorem invert_highlights_self_inverse_witness:
  "highlighted_features example_widget \<subseteq> original_selection example_widget
   \<and> highlighted_features (invert_highlights example_widget) = {1, 3}
   \<and> original_selection (invert_highlights example_widget) = {1, 2, 3}
   \<and> highlighted_features (invert_highlights (invert_highlights example_widget)) = {2}"
proof -
  have h: "highlighted_features example_widget \<subseteq> original_selection example_widget"
    by (simp add: example_widget_fields)
  from invert_highlights_self_inverse [OF h] h show ?thesis
    by (auto simp: example_widget_fields)
qed

text \<open>
  Claim C8. \<open>on_features_deleted\<close> subtracts the deleted ids from both sets and nothing
  else: afterwards neither set holds a deleted id, and each holds every other id it held.
\<close>

theorem on_features_deleted_removes_ids:
  "original_selection (on_features_deleted Y s) = original_selection s - set Y
   \<and> highlighted_features (on_features_deleted Y s) = highlighted_features s - set Y
   \<and> original_selection (on_features_deleted Y s) \<inter> set Y = {}
   \<and> highlighted_features (on_features_deleted Y s) \<inter> set Y = {}"
  by (auto simp: on_features_deleted_def Let_def)

theorem on_features_deleted_removes_ids_witness:
  "original_selection (on_features_deleted [2, 7] example_widget) = {1, 3}
   \<and> highlighted_features (on_features_deleted [2, 7] example_widget) = {}"
  using on_features_deleted_removes_ids [of "[2, 7]" example_widget]
  by (auto simp: example_widget_fields)

text \<open>
  Claim C9. The statements that compute \<open>target_fids\<close> and run the field calculator
  dialog read the name \<open>fids\<close> where nothing has bound it: every call of the method that
  holds them, \<open>flash_fid\<close>, flashes the feature and then raises the error for the
  unbound name. \<open>open_field_calculator\<close> shows a message when nothing is selected,
  does nothing otherwise, and never runs the dialog.
\<close>

theorem field_calculator_unbound_name:
  "flash_fid f s = (Some (NameError ''fids''), emit (Host (FlashFeatureIds [f])) s)
   \<and> open_field_calculator s =
       (if highlighted_features s = {} \<and> original_selection s = {}
        then emit (Message Info ''Field Calculator'' ''No features selected.'' []) s
        else s)
   \<and> DialogExec ''FieldCalculatorDialog''
       \<notin> set (new_events s (open_field_calculator s))"
  by (auto simp: flash_fid_def load_name_def module_names_def open_field_calculator_def
        get_target_features_def Let_def new_events_def)

theorem field_calculator_unbound_name_witness:
  "fst (flash_fid 2 example_widget) = Some (NameError ''fids'')
   \<and> open_field_calculator example_widget = example_widget"
  using field_calculator_unbound_name [of 2 example_widget]
  by (simp add: example_widget_fields)

text \<open>
  Claim C10. With nothing highlighted and nothing selected \<open>copy_features\<close> returns the
  state as it is. With a target, the clipboard afterwards is the list of the layer's
  features whose id is in the target, whatever the clipboard held before. In both cases
  \<open>original_selection\<close> and \<open>highlighted_features\<close> are as before.
\<close>

theorem copy_features_replaces_clipboard:
  "(highlighted_features s = {} \<and> original_selection s = {} \<longrightarrow> copy_features s = s)
   \<and> (get_target_features s \<noteq> {} \<longrightarrow>
        clipboard_features (copy_features s) =
          filter (\<lambda>f. fid f \<in> get_target_features s) (layer_features s))
   \<and> original_selection (copy_features s) = original_selection s
   \<and> highlighted_features (copy_features s) = highlighted_features s"
  by (auto simp: copy_features_def Let_def get_target_features_def getFeatures_def)

theorem copy_features_replaces_clipboard_witness:
  "get_target_features example_widget \<noteq> {}
   \<and> clipboard_features (copy_features example_widget) = [feature_of 2]
   \<and> clipboard_features (copy_features (copy_features example_widget)) = [feature_of 2]
   \<and> highlighted_features example_empty = {} \<and> original_selection example_empty = {}
   \<and> copy_features example_empty = example_empty"
proof -
  have h: "get_target_features example_widget \<noteq> {}"
    "highlighted_features example_empty = {}" "original_selection example_empty = {}"
    by (simp_all add: example_targets example_empty_fields)
  have first: "clipboard_features (copy_features example_widget) = [feature_of 2]"
    using copy_features_replaces_clipboard [of example_widget] h
    by (simp add: example_targets example_widget_fields feature_of_def)
  have again: "get_target_features (copy_features example_widget) = {2}"
    "layer_features (copy_features example_widget) = map feature_of [1, 2, 3]"
    using copy_features_replaces_clipboard [of example_widget]
    by (simp_all add: get_target_features_def example_widget_fields copy_features_def Let_def)
  have second: "clipboard_features (copy_features (copy_features example_widget))
                  = [feature_of 2]"
    using copy_features_replaces_clipboard [of "copy_features example_widget"]
    unfolding again
    by (simp add: feature_of_def)
  from copy_features_replaces_clipboard [of example_empty] h first second show ?thesis
    by simp
qed

end
